theory Spec2Isabelle
  imports Complex_Main "HOL-Library.Multiset"
begin

section \<open>Python primitives used by app.py\<close>

text \<open>
  Text is a list of characters and offsets are Python integers, because
  \<open>str.find\<close> answers \<open>-1\<close> and a negative slice bound counts from the end.
  Characters are the 8-bit \<open>char\<close> of HOL; the properties below concern ASCII text.
  Importance scores are modelled as reals: the code only compares them and takes
  their absolute value.
\<close>

datatype py_error = KeyError

definition py_take :: "int \<Rightarrow> 'a list \<Rightarrow> 'a list" where
  \<comment> \<open>the slice \<open>s[:k]\<close>\<close>
  "py_take k s = (if k < 0 then take (nat (int (length s) + k)) s else take (nat k) s)"

definition py_drop :: "int \<Rightarrow> 'a list \<Rightarrow> 'a list" where
  \<comment> \<open>the slice \<open>s[k:]\<close>\<close>
  "py_drop k s = (if k < 0 then drop (nat (int (length s) + k)) s else drop (nat k) s)"

definition py_count :: "string \<Rightarrow> char \<Rightarrow> int" where
  \<comment> \<open>\<open>s.count(c)\<close> for a one-character pattern\<close>
  "py_count s c = int (length (filter (\<lambda>d. d = c) s))"

primrec find_in :: "string \<Rightarrow> string \<Rightarrow> nat \<Rightarrow> int" where
  \<comment> \<open>first match of \<open>sub\<close> in a suffix whose first character has index \<open>i\<close>\<close>
  "find_in sub [] i = (if sub = [] then int i else - 1)"
| "find_in sub (x # xs) i =
     (if take (length sub) (x # xs) = sub then int i else find_in sub xs (Suc i))"

definition py_find :: "string \<Rightarrow> string \<Rightarrow> int \<Rightarrow> int" where
  \<comment> \<open>\<open>text.find(sub, start)\<close>: lowest index at or after \<open>start\<close>, \<open>-1\<close> when there is none\<close>
  "py_find text sub start =
     (let n = int (length text);
          s = (if start < 0 then max 0 (start + n) else start)
      in if n < s then - 1 else find_in sub (drop (nat s) text) (nat s))"



definition word_char :: "char \<Rightarrow> bool" where
  \<comment> \<open>the class \<open>\w\<close> on ASCII: letters, digits and the underscore\<close>
  "word_char c =
     (c \<in> set ''abcdefghijklmnopqrstuvwxyzABCDEFGHIJKLMNOPQRSTUVWXYZ0123456789_'')"

text \<open>
  \<open>f"{x:.2f}"\<close>: the value rounded to two decimals, ties to the even neighbour,
  printed with its sign, its integer part and two decimal digits.
\<close>

definition round_half_even :: "real \<Rightarrow> int" where
  "round_half_even x =
     (let f = \<lfloor>x\<rfloor>; d = x - of_int f
      in if d < 1 / 2 then f else if 1 / 2 < d then f + 1 else if even f then f else f + 1)"

definition digit_char :: "nat \<Rightarrow> char" where
  "digit_char d = ''0123456789'' ! d"

function digits :: "nat \<Rightarrow> string" where
  "digits n = (if n < 10 then [digit_char n] else digits (n div 10) @ [digit_char (n mod 10)])"
  by pat_completeness auto
termination
  by (relation "measure id") auto

definition two_decimals :: "real \<Rightarrow> string" where
  "two_decimals v =
     (let n = nat (round_half_even (\<bar>v\<bar> * 100))
      in (if v < 0 then ''-'' else []) @ digits (n div 100) @ ''.''
           @ [digit_char ((n div 10) mod 10), digit_char (n mod 10)])"



section \<open>preprocess\_with\_tracking\<close>

text \<open>
  Line 24, \<open>re.sub(r'(\w)\1{5,}', '', text)\<close>: scanning from the left, a word
  character followed by at least five more copies of itself is deleted together
  with the whole run that follows it (the quantifier is greedy); any other
  character is kept and the scan moves on by one.
\<close>

function sub_repeats :: "string \<Rightarrow> string" where
  "sub_repeats [] = []"
| "sub_repeats (c # cs) =
     (if word_char c \<and> 5 \<le> length (takeWhile (\<lambda>d. d = c) cs)
      then sub_repeats (dropWhile (\<lambda>d. d = c) cs)
      else c # sub_repeats cs)"
  by pat_completeness auto
termination
  by (relation "measure length") (auto simp: length_dropWhile_le le_imp_less_Suc)

text \<open>
  Lines 28 to 51. The tokenizer, the slang dictionary, the stop word list and the
  Porter stemmer are loaded from outside the repository; they are parameters:
  \<open>tokens\<close> is the tokenizer's answer on the cleaned text, \<open>slang_dict\<close> the
  mapping that \<open>slang_dict.get\<close> consults, \<open>stopwords\<close> the stop word list and
  \<open>stem\<close> the stemmer.
\<close>

type_synonym word_mapping = "(string \<times> string) list"






section \<open>compute\_shap\_values\<close>

text \<open>
  The data frame of importance scores is the list of its rows, feature name and
  score, in the vectorizer's order; feature names are unique. The explainer that
  fills it is outside the repository. \<open>nlargest\<close> keeps the first of equal values,
  \<open>sort_values\<close> sorts ascending.
\<close>

type_synonym shap_df = "(string \<times> real) list"

definition nlargest_abs :: "nat \<Rightarrow> shap_df \<Rightarrow> shap_df" where
  "nlargest_abs n df = take n (sort_key (\<lambda>(w, s). - \<bar>s\<bar>) df)"

definition filtered_shap_values_df :: "shap_df \<Rightarrow> word_mapping \<Rightarrow> shap_df" where
  \<comment> \<open>lines 206 to 208: the rows of the processed words, then those at or above the threshold\<close>
  "filtered_shap_values_df shap_values_df word_mapping =
     (let processed_words = snd ` set word_mapping
      in filter (\<lambda>(w, s). 0.01 \<le> \<bar>s\<bar>)
           (filter (\<lambda>(w, s). w \<in> processed_words) shap_values_df))"

definition compute_shap_values ::
  "shap_df \<Rightarrow> word_mapping \<Rightarrow> nat \<Rightarrow> shap_df \<times> shap_df \<times> nat" where
  "compute_shap_values shap_values_df word_mapping top_n =
     (let top_n_shap_values_df =
            nlargest_abs top_n (filtered_shap_values_df shap_values_df word_mapping)
      in (shap_values_df, sort_key snd top_n_shap_values_df, length top_n_shap_values_df))"


section \<open>generate\_spacy\_visualization\<close>

record entity =
  e_start :: int
  e_end :: int
  label :: string

definition reverse_mapping :: "word_mapping \<Rightarrow> (string \<rightharpoonup> string)" where
  \<comment> \<open>a dict comprehension: of two pairs with the same key the later one stays\<close>
  "reverse_mapping word_mapping = map_of (rev word_mapping)"

fun word_positions :: "string \<Rightarrow> string list \<Rightarrow> int \<Rightarrow> (string \<times> int \<times> int) list" where
  "word_positions input_text [] current_position = []"
| "word_positions input_text (word # ws) current_position =
     (let start_idx = py_find input_text word current_position;
          end_idx = start_idx + int (length word)
      in (word, start_idx, end_idx) # word_positions input_text ws end_idx)"

definition mk_label :: "real \<Rightarrow> string" where
  \<comment> \<open>\<open>f"{'POS' if shap_value > 0 else 'NEG'} ({shap_value:.2f})"\<close>\<close>
  "mk_label shap_value =
     (if 0 < shap_value then ''POS'' else ''NEG'') @ '' ('' @ two_decimals shap_value @ '')''"

primrec entities ::
  "shap_df \<Rightarrow> (string \<rightharpoonup> string) \<Rightarrow> (string \<times> int \<times> int) list
     \<Rightarrow> entity list" where
  "entities df rm [] = []"
| "entities df rm (p # ps) =
     (case p of (word, start, end) \<Rightarrow>
        (case rm word of
           None \<Rightarrow> entities df rm ps
         | Some processed_word \<Rightarrow>
             (case map_of df processed_word of
                None \<Rightarrow> entities df rm ps
              | Some shap_value \<Rightarrow>
                  if 0.01 \<le> \<bar>shap_value\<bar>
                  then \<lparr>e_start = start, e_end = end, label = mk_label shap_value\<rparr>
                         # entities df rm ps
                  else entities df rm ps)))"

fun add_underscores :: "entity list \<Rightarrow> int \<Rightarrow> string \<Rightarrow> string" where
  "add_underscores (e # e' # es) offset modified_text =
     (let current_end = e_end e + offset;
          next_start = e_start e' + offset
      in if current_end + 1 = next_start
         then add_underscores (e' # es) (offset + 1)
                (py_take current_end modified_text @ ''_'' @ py_drop current_end modified_text)
         else add_underscores (e' # es) offset modified_text)"
| "add_underscores es offset modified_text = modified_text"

definition adjust_entity :: "string \<Rightarrow> entity \<Rightarrow> entity" where
  "adjust_entity modified_text e =
     \<lparr>e_start = e_start e + py_count (py_take (e_start e) modified_text) CHR ''_'',
      e_end = e_end e + py_count (py_take (e_end e) modified_text) CHR ''_'',
      label = label e\<rparr>"

text \<open>
  The colour table is keyed by label; its keys come from the scores of the top-N
  rows. A row of the top-N frame that the score frame lacks raises \<open>KeyError\<close>.
  The colours themselves are computed by the plotting library.
\<close>

primrec select_shap :: "(real \<Rightarrow> bool) \<Rightarrow> shap_df \<Rightarrow> string list \<Rightarrow> py_error + real list" where
  "select_shap P df [] = Inr []"
| "select_shap P df (word # ws) =
     (case map_of df word of
        None \<Rightarrow> Inl KeyError
      | Some v \<Rightarrow>
          (case select_shap P df ws of
             Inl err \<Rightarrow> Inl err
           | Inr vs \<Rightarrow> Inr (if P v then v # vs else vs)))"

definition dict_keys :: "string list \<Rightarrow> string list" where
  \<comment> \<open>the keys of a dict filled in this order: a key stays where it was first put\<close>
  "dict_keys ks = rev (remdups (rev ks))"

definition color_keys :: "shap_df \<Rightarrow> shap_df \<Rightarrow> py_error + string list" where
  "color_keys shap_values_df top_n_shap_values_df =
     (case select_shap (\<lambda>v. 0.01 < v) shap_values_df (map fst top_n_shap_values_df) of
        Inl err \<Rightarrow> Inl err
      | Inr positive_shap_values \<Rightarrow>
          (case select_shap (\<lambda>v. v < - 0.01) shap_values_df (map fst top_n_shap_values_df) of
             Inl err \<Rightarrow> Inl err
           | Inr negative_shap_values \<Rightarrow>
               Inr (dict_keys
                      (map (\<lambda>v. ''POS ('' @ two_decimals v @ '')'') positive_shap_values
                       @ map (\<lambda>v. ''NEG ('' @ two_decimals v @ '')'') negative_shap_values))))"

text \<open>
  \<open>original_words\<close> is the tokenizer's answer on the raw text. The result is the
  text and the spans handed to the renderer, with the keys of the colour table.
\<close>

definition resolved_entities ::
  "string \<Rightarrow> string list \<Rightarrow> shap_df \<Rightarrow> word_mapping \<Rightarrow> entity list" where
  "resolved_entities input_text original_words shap_values_df word_mapping =
     entities shap_values_df (reverse_mapping word_mapping)
       (word_positions input_text original_words 0)"

definition generate_spacy_visualization ::
  "string \<Rightarrow> string list \<Rightarrow> shap_df \<Rightarrow> shap_df \<Rightarrow> word_mapping
     \<Rightarrow> py_error + (string \<times> entity list \<times> string list)" where
  "generate_spacy_visualization input_text original_words shap_values_df
       top_n_shap_values_df word_mapping =
     (case color_keys shap_values_df top_n_shap_values_df of
        Inl err \<Rightarrow> Inl err
      | Inr color_options \<Rightarrow>
          (let ents = resolved_entities input_text original_words shap_values_df word_mapping;
               modified_text = add_underscores ents 0 input_text;
               adjusted_entities = map (adjust_entity modified_text) ents
           in Inr (modified_text, adjusted_entities, color_options)))"


section \<open>Predicates of the properties\<close>

definition ordered_by_magnitude :: "shap_df \<Rightarrow> bool" where
  \<comment> \<open>every row is followed only by rows of no larger magnitude\<close>
  "ordered_by_magnitude ranked = sorted_wrt (\<lambda>x y. \<bar>snd y\<bar> \<le> \<bar>snd x\<bar>) ranked"











section \<open>Auxiliary facts\<close>

lemmas eval_defs = generate_spacy_visualization_def color_keys_def dict_keys_def
  resolved_entities_def
  reverse_mapping_def py_find_def py_take_def py_drop_def adjust_entity_def py_count_def
  mk_label_def two_decimals_def round_half_even_def digit_char_def Let_def
  compute_shap_values_def nlargest_abs_def filtered_shap_values_df_def

lemma nlargest_abs_dominates:
  assumes x: "x \<in> set (nlargest_abs n df)"
    and y: "y \<in> set df" and ny: "y \<notin> set (nlargest_abs n df)"
  shows "\<bar>snd y\<bar> \<le> \<bar>snd x\<bar>"
proof -
  let ?f = "\<lambda>(w :: string, s :: real). - \<bar>s\<bar>"
  let ?xs = "sort_key ?f df"
  have "set ?xs = set (take n ?xs) \<union> set (drop n ?xs)"
    by (metis append_take_drop_id set_append)
  with y ny have yd: "y \<in> set (drop n ?xs)"
    by (auto simp: nlargest_abs_def)
  have "sorted (map ?f (take n ?xs) @ map ?f (drop n ?xs))"
    by (metis append_take_drop_id map_append sorted_sort_key)
  then have "\<forall>a \<in> set (take n ?xs). \<forall>b \<in> set (drop n ?xs). ?f a \<le> ?f b"
    by (auto simp: sorted_append)
  with x yd have "?f x \<le> ?f y"
    by (auto simp: nlargest_abs_def)
  then show ?thesis
    by (simp add: case_prod_beta)
qed






lemma reverse_mapping_Some: "reverse_mapping wm w = Some p \<Longrightarrow> (w, p) \<in> set wm"
  unfolding reverse_mapping_def by (metis map_of_SomeD set_rev)















lemma ranked_mset:
  "mset (fst (snd (compute_shap_values df wm n))) \<subseteq># mset (filtered_shap_values_df df wm)"
proof -
  let ?xs = "sort_key (\<lambda>(w :: string, s :: real). - \<bar>s\<bar>) (filtered_shap_values_df df wm)"
  have "mset (take n ?xs) \<subseteq># mset (take n ?xs) + mset (drop n ?xs)"
    by simp
  also have "mset (take n ?xs) + mset (drop n ?xs) = mset ?xs"
    by (metis append_take_drop_id mset_append)
  finally show ?thesis
    by (simp add: compute_shap_values_def Let_def nlargest_abs_def)
qed

lemma ranked_length:
  "length (fst (snd (compute_shap_values df wm n))) = min n (length (filtered_shap_values_df df wm))"
  by (simp add: compute_shap_values_def Let_def nlargest_abs_def min.commute)
















section \<open>Worked examples\<close>































section \<open>The feature importance selector\<close>

text \<open>
  C6, as stated: the ranked list returned by the selector is ordered by magnitude,
  largest first. The selector picks the rows of largest magnitude and then
  sorts them by signed score (\<open>sort_values(by="SHAP")\<close>), so with scores
  \<open>0.5\<close>, \<open>-0.3\<close> and \<open>0.02\<close> the list comes back as \<open>-0.3\<close>, \<open>0.02\<close>, \<open>0.5\<close>,
  and \<open>0.02\<close> stands before \<open>0.5\<close>.
\<close>

theorem ranked_list_not_by_magnitude:
  "\<not> ordered_by_magnitude
        (fst (snd (compute_shap_values [(''a'', 0.5), (''b'', - 0.3), (''c'', 0.02)]
                     [(''x'', ''a''), (''y'', ''b''), (''z'', ''c'')] 3)))"
  by (simp add: eval_defs ordered_by_magnitude_def)

text \<open>
  C6, amended: the ranked list holds the \<open>min(topN, number of qualifying rows)\<close>
  qualifying rows of largest magnitude (every row of the list is a qualifying row,
  no row twice unless the table has it twice, and no qualifying row left out has a
  larger magnitude than a row of the list), in ascending order of the signed score.
\<close>

theorem ranked_list_order:
  "sorted (map snd (fst (snd (compute_shap_values df wm n))))
   \<and> length (fst (snd (compute_shap_values df wm n)))
       = min n (length (filtered_shap_values_df df wm))
   \<and> mset (fst (snd (compute_shap_values df wm n))) \<subseteq># mset (filtered_shap_values_df df wm)
   \<and> (\<forall>x \<in> set (fst (snd (compute_shap_values df wm n))).
        \<forall>y \<in> set (filtered_shap_values_df df wm) - set (fst (snd (compute_shap_values df wm n))).
          \<bar>snd y\<bar> \<le> \<bar>snd x\<bar>)"
proof -
  have "sorted (map snd (fst (snd (compute_shap_values df wm n))))"
    by (simp add: compute_shap_values_def Let_def sorted_sort_key)
  moreover have "set (fst (snd (compute_shap_values df wm n)))
      = set (nlargest_abs n (filtered_shap_values_df df wm))"
    by (simp add: compute_shap_values_def Let_def)
  ultimately show ?thesis
    using nlargest_abs_dominates ranked_length ranked_mset by blast
qed

theorem ranked_list_order_witness:
  "fst (snd (compute_shap_values [(''a'', 0.5), (''b'', - 0.3), (''c'', 0.02), (''d'', 0.001)]
                     [(''x'', ''a''), (''y'', ''b''), (''z'', ''c''), (''u'', ''d'')] 2))
     = [(''b'', - 0.3), (''a'', 0.5)]
   \<and> filtered_shap_values_df [(''a'', 0.5), (''b'', - 0.3), (''c'', 0.02), (''d'', 0.001)]
                     [(''x'', ''a''), (''y'', ''b''), (''z'', ''c''), (''u'', ''d'')]
     = [(''a'', 0.5), (''b'', - 0.3), (''c'', 0.02)]
   \<and> sorted (map snd [(''b'', - 0.3 :: real), (''a'', 0.5)])
   \<and> length [(''b'', - 0.3 :: real), (''a'', 0.5)] = min 2 (length [(''a'', 0.5 :: real), (''b'', - 0.3), (''c'', 0.02)])
   \<and> (''c'', 0.02) \<in> set (filtered_shap_values_df [(''a'', 0.5), (''b'', - 0.3), (''c'', 0.02), (''d'', 0.001)]
                     [(''x'', ''a''), (''y'', ''b''), (''z'', ''c''), (''u'', ''d'')])
        - set (fst (snd (compute_shap_values [(''a'', 0.5), (''b'', - 0.3), (''c'', 0.02), (''d'', 0.001)]
                     [(''x'', ''a''), (''y'', ''b''), (''z'', ''c''), (''u'', ''d'')] 2)))
   \<and> \<bar>snd (''c'', 0.02 :: real)\<bar> \<le> \<bar>snd (''b'', - 0.3 :: real)\<bar>"
  using ranked_list_order [of "[(''a'', 0.5), (''b'', - 0.3), (''c'', 0.02), (''d'', 0.001)]"
      "[(''x'', ''a''), (''y'', ''b''), (''z'', ''c''), (''u'', ''d'')]" 2]
  by (simp add: eval_defs)

text \<open>
  C7: when the requested number is at least the number of qualifying rows (rows of
  a processed word, at or above the threshold), the selector returns all of them,
  and the count it reports is the number of rows it returns.
\<close>

theorem top_n_correction:
  assumes "length (filtered_shap_values_df df wm) \<le> top_n"
  shows "mset (fst (snd (compute_shap_values df wm top_n))) = mset (filtered_shap_values_df df wm)
    \<and> snd (snd (compute_shap_values df wm top_n))
        = length (fst (snd (compute_shap_values df wm top_n)))
    \<and> snd (snd (compute_shap_values df wm top_n)) = length (filtered_shap_values_df df wm)"
  using assms by (simp add: compute_shap_values_def Let_def nlargest_abs_def)

theorem top_n_correction_witness:
  "length (filtered_shap_values_df
      [(''a'', 0.5), (''b'', - 0.3), (''c'', 0.02), (''d'', 0.001), (''e'', 3)]
      [(''x'', ''a''), (''y'', ''b''), (''z'', ''c''), (''z'', ''d'')]) = 3
   \<and> fst (snd (compute_shap_values
      [(''a'', 0.5), (''b'', - 0.3), (''c'', 0.02), (''d'', 0.001), (''e'', 3)]
      [(''x'', ''a''), (''y'', ''b''), (''z'', ''c''), (''z'', ''d'')] 100))
     = [(''b'', - 0.3), (''c'', 0.02), (''a'', 0.5)]
   \<and> snd (snd (compute_shap_values
      [(''a'', 0.5), (''b'', - 0.3), (''c'', 0.02), (''d'', 0.001), (''e'', 3)]
      [(''x'', ''a''), (''y'', ''b''), (''z'', ''c''), (''z'', ''d'')] 100)) = 3"
  using top_n_correction [of
      "[(''a'', 0.5), (''b'', - 0.3), (''c'', 0.02), (''d'', 0.001), (''e'', 3)]"
      "[(''x'', ''a''), (''y'', ''b''), (''z'', ''c''), (''z'', ''d'')]" 100]
  by (simp add: eval_defs)


section \<open>Normalization, step 4\<close>

text \<open>
  C9: step 4 deletes every run of six or more copies of any character. The source's
  comment says so too (any single character repeated more than 5 times), but the
  pattern is \<open>(\w)\1{5,}\<close>: a run of exclamation marks stays, a run of letters goes.
\<close>

theorem sub_repeats_keeps_non_word_run:
  "sub_repeats ''a!!!!!!b'' = ''a!!!!!!b'' \<and> sub_repeats ''aZZZZZZb'' = ''ab''"
  by (simp add: word_char_def)


section \<open>The span resolver\<close>










section \<open>Adjacency resolution\<close>







section \<open>Offset reconstruction\<close>





section \<open>The reverse map\<close>


end
